theory Spec2Isabelle
  imports Complex_Main
begin

text \<open>
  A shallow embedding of the gesture pipeline (landmark classifier, debouncer, scene state
  machine) and of the per-frame morph engine (progress damping, per-entity transforms,
  photo layout) of the repository, with the properties of its specification stated and
  proved, or refuted, over the embedding. JavaScript numbers are modelled as real numbers;
  \<^verbatim>\<open>Math.random()\<close> is modelled as an explicit input.
\<close>

section \<open>Data model (src/types.ts)\<close>

datatype TreeState = ASSEMBLED | SCATTERED | PHOTO_ZOOM

datatype HandGesture = NONE | FIST | OPEN | PINCH

text \<open>
  A hand landmark as \<^verbatim>\<open>analyzeGesture\<close> reads it: the fields \<^verbatim>\<open>x\<close> and \<^verbatim>\<open>y\<close> of a
  point (the detector also delivers \<^verbatim>\<open>z\<close>, which no code of the repository reads).
  JavaScript numbers are modelled as real numbers.
\<close>

record landmark =
  pt_x :: real
  pt_y :: real

text \<open>Reading a property of \<^verbatim>\<open>undefined\<close> throws a TypeError.\<close>

datatype js_error = TypeError

section \<open>Landmark classifier (src/components/HandController.tsx, analyzeGesture)\<close>

definition dSq :: "landmark \<Rightarrow> landmark \<Rightarrow> real" where
  "dSq p1 p2 = (pt_x p1 - pt_x p2)\<^sup>2 + (pt_y p1 - pt_y p2)\<^sup>2"

definition tips :: "nat list" where
  "tips = [8, 12, 16, 20]"

definition bases :: "nat list" where
  "bases = [5, 9, 13, 17]"

text \<open>
  The two counting loops \<^verbatim>\<open>for (let i = 0; i < 4; i++) if (...) count++\<close>:
  the number of indices \<open>i < 4\<close> at which the test holds.
\<close>

definition foldedCount :: "landmark list \<Rightarrow> nat" where
  "foldedCount landmarks =
     length (filter (\<lambda>i. dSq (landmarks ! (tips ! i)) (landmarks ! 0)
                          < dSq (landmarks ! (bases ! i)) (landmarks ! 0) * 1.2) [0, 1, 2, 3])"

definition extendedCount :: "landmark list \<Rightarrow> nat" where
  "extendedCount landmarks =
     length (filter (\<lambda>i. dSq (landmarks ! (tips ! i)) (landmarks ! 0)
                          > dSq (landmarks ! (bases ! i)) (landmarks ! 0) * 1.5) [0, 1, 2, 3])"

text \<open>\<^verbatim>\<open>thumbTucked\<close> is computed by the source and never read.\<close>

definition thumbTucked :: "landmark list \<Rightarrow> bool" where
  "thumbTucked landmarks \<longleftrightarrow>
     dSq (landmarks ! 4) (landmarks ! 5) < 0.005 \<or> dSq (landmarks ! 4) (landmarks ! 9) < 0.005"

text \<open>
  The first loop reads \<^verbatim>\<open>landmarks[20].x\<close> before any \<^verbatim>\<open>return\<close>, so an array of fewer
  than 21 points throws; with 21 or more points every index read is in range.
\<close>

definition analyzeGesture :: "landmark list \<Rightarrow> js_error + HandGesture" where
  "analyzeGesture landmarks =
     (if length landmarks < 21 then Inl TypeError
      else if foldedCount landmarks \<ge> 3 then Inr FIST
      else if extendedCount landmarks \<ge> 3 then Inr OPEN
      else if dSq (landmarks ! 4) (landmarks ! 8) < 0.002 then Inr PINCH
      else Inr NONE)"

section \<open>Gesture debouncer and detection tick (HandController.tsx, detect)\<close>

record detect_state =
  lastVideoTime :: real
  lastGesture :: HandGesture
  gestureFrames :: nat

definition detect_init :: detect_state where
  "detect_init = \<lparr>lastVideoTime = -1, lastGesture = NONE, gestureFrames = 0\<rparr>"

text \<open>The second argument of \<^verbatim>\<open>onGesture\<close>: \<^verbatim>\<open>{ x: palmX, y: palmY, landmarks }\<close>.\<close>

record hand_data =
  hd_x :: real
  hd_y :: real
  hd_landmarks :: "landmark list"

text \<open>
  Lines 58 to 66: the counter update and the choice of \<^verbatim>\<open>finalGesture\<close>, whose two
  branches are the same expression.
\<close>

definition debounce :: "detect_state \<Rightarrow> HandGesture \<Rightarrow> detect_state \<times> HandGesture" where
  "debounce st rawGesture =
     (let st' = (if rawGesture = lastGesture st
                 then st\<lparr>gestureFrames := gestureFrames st + 1\<rparr>
                 else st\<lparr>gestureFrames := 0, lastGesture := rawGesture\<rparr>);
          finalGesture = (if gestureFrames st' > 2 then lastGesture st' else lastGesture st')
      in (st', finalGesture))"

text \<open>The debouncer fed a sequence of raw symbols: the outputs, in order, and the final state.\<close>

fun debounce_run :: "detect_state \<Rightarrow> HandGesture list \<Rightarrow> HandGesture list \<times> detect_state" where
  "debounce_run st [] = ([], st)"
| "debounce_run st (g # gs) =
     (case debounce st g of (st', out) \<Rightarrow>
        (case debounce_run st' gs of (outs, st'') \<Rightarrow> (out # outs, st'')))"

text \<open>
  One call of \<^verbatim>\<open>detect\<close> on a video whose current time is \<open>currentTime\<close>, the landmarker
  answering \<open>result_landmarks\<close> (\<^verbatim>\<open>result.landmarks\<close>: absent, or one point array per
  detected hand). The result is the new state and the arguments of the \<^verbatim>\<open>onGesture\<close>
  call, if one is made. The effect that installs \<^verbatim>\<open>detect\<close> runs only once the
  landmarker is loaded and the video element exists.
\<close>

definition detect ::
  "detect_state \<Rightarrow> real \<Rightarrow> landmark list list option
     \<Rightarrow> js_error + (detect_state \<times> (HandGesture \<times> hand_data option) option)" where
  "detect st currentTime result_landmarks =
     (if currentTime \<noteq> lastVideoTime st then
        (let st1 = st\<lparr>lastVideoTime := currentTime\<rparr> in
         case result_landmarks of
           Some (landmarks # _) \<Rightarrow>
             (case analyzeGesture landmarks of
                Inl e \<Rightarrow> Inl e
              | Inr rawGesture \<Rightarrow>
                  (case debounce st1 rawGesture of (st2, finalGesture) \<Rightarrow>
                     Inr (st2, Some (finalGesture,
                            Some \<lparr>hd_x = pt_x (landmarks ! 0), hd_y = pt_y (landmarks ! 0),
                                  hd_landmarks = landmarks\<rparr>))))
         | _ \<Rightarrow> Inr (st1, Some (NONE, None)))
      else Inr (st, None))"

section \<open>Scene state machine (src/App.tsx, handleGesture)\<close>

record app_state =
  treeState :: TreeState
  gesture :: HandGesture
  handData :: "(real \<times> real) option"

definition app_init :: app_state where
  "app_init = \<lparr>treeState = ASSEMBLED, gesture = NONE, handData = None\<rparr>"

definition handleGesture :: "app_state \<Rightarrow> HandGesture \<Rightarrow> hand_data option \<Rightarrow> app_state" where
  "handleGesture s detectedGesture data =
     (let s1 = s\<lparr>gesture := detectedGesture\<rparr>;
          s2 = (case data of
                  Some d \<Rightarrow> s1\<lparr>handData := Some (hd_x d, hd_y d)\<rparr>
                | None \<Rightarrow> s1\<lparr>handData := None\<rparr>)
      in if detectedGesture = FIST then s2\<lparr>treeState := ASSEMBLED\<rparr>
         else if detectedGesture = OPEN then s2\<lparr>treeState := SCATTERED\<rparr>
         else s2)"

text \<open>A detection tick followed by the delivery of its \<^verbatim>\<open>onGesture\<close> call, if any.\<close>

definition pipeline_tick ::
  "detect_state \<times> app_state \<Rightarrow> real \<Rightarrow> landmark list list option
     \<Rightarrow> js_error + (detect_state \<times> app_state)" where
  "pipeline_tick sa currentTime result_landmarks =
     (case detect (fst sa) currentTime result_landmarks of
        Inl e \<Rightarrow> Inl e
      | Inr (st', None) \<Rightarrow> Inr (st', snd sa)
      | Inr (st', Some (g, d)) \<Rightarrow> Inr (st', handleGesture (snd sa) g d))"

section \<open>Library functions of three.js used by the source\<close>

text \<open>
  The source imports three.js as \<^verbatim>\<open>THREE\<close>. The functions it calls are modelled by the
  library's definitions:
  \<^verbatim>\<open>MathUtils.lerp(x, y, t) = (1 - t) * x + t * y\<close>,
  \<^verbatim>\<open>MathUtils.damp(x, y, lambda, dt) = lerp(x, y, 1 - Math.exp(-lambda * dt))\<close>,
  \<^verbatim>\<open>Vector3.lerpVectors(v1, v2, alpha)\<close>, which sets each component to
  \<^verbatim>\<open>v1.c + (v2.c - v1.c) * alpha\<close>, and \<^verbatim>\<open>Vector3.lerp(v, alpha)\<close>, which adds
  \<^verbatim>\<open>(v.c - this.c) * alpha\<close> to each component.
\<close>

type_synonym vec3 = "real \<times> real \<times> real"

definition vx :: "vec3 \<Rightarrow> real" where "vx v = fst v"
definition vy :: "vec3 \<Rightarrow> real" where "vy v = fst (snd v)"
definition vz :: "vec3 \<Rightarrow> real" where "vz v = snd (snd v)"

definition lerp :: "real \<Rightarrow> real \<Rightarrow> real \<Rightarrow> real" where
  "lerp x y t = (1 - t) * x + t * y"

definition damp :: "real \<Rightarrow> real \<Rightarrow> real \<Rightarrow> real \<Rightarrow> real" where
  "damp x y lambda dt = lerp x y (1 - exp (- lambda * dt))"

definition lerpVectors :: "vec3 \<Rightarrow> vec3 \<Rightarrow> real \<Rightarrow> vec3" where
  "lerpVectors v1 v2 alpha =
     (vx v1 + (vx v2 - vx v1) * alpha,
      vy v1 + (vy v2 - vy v1) * alpha,
      vz v1 + (vz v2 - vz v1) * alpha)"

definition vec_lerp :: "vec3 \<Rightarrow> vec3 \<Rightarrow> real \<Rightarrow> vec3" where
  "vec_lerp this v alpha =
     (vx this + (vx v - vx this) * alpha,
      vy this + (vy v - vy this) * alpha,
      vz this + (vz v - vz this) * alpha)"

text \<open>
  The orientation of an \<^verbatim>\<open>Object3D\<close>: set from Euler angles by \<^verbatim>\<open>rotation.set\<close>, or by
  \<^verbatim>\<open>lookAt\<close> from the object's position and the point looked at. An \<^verbatim>\<open>Object3D\<close> is its
  position, orientation and (uniform) scale; \<^verbatim>\<open>updateMatrix\<close> composes the matrix that
  \<^verbatim>\<open>setMatrixAt\<close> stores from exactly these three.
\<close>

datatype orientation = Euler real real real | LookAt vec3 vec3

record object3d =
  obj_position :: vec3
  obj_rotation :: orientation
  obj_scale :: real

definition new_Object3D :: object3d where
  "new_Object3D = \<lparr>obj_position = (0, 0, 0), obj_rotation = Euler 0 0 0, obj_scale = 1\<rparr>"

definition lookAt :: "object3d \<Rightarrow> vec3 \<Rightarrow> object3d" where
  "lookAt obj target = obj\<lparr>obj_rotation := LookAt (obj_position obj) target\<rparr>"

section \<open>Morph engine of the tree (src/components/ArixChristmasTree.tsx, useFrame)\<close>

text \<open>
  The entities of the tree's instance groups. Every one has a scatter position, a tree
  position and a scale; needles add a rotation, ornaments and lights a phase.
\<close>

record entity =
  scatterPosition :: vec3
  treePosition :: vec3
  scale :: real

record needle = entity +
  rotation :: vec3

record ornament = entity +
  phase :: real

text \<open>Lines 141 to 144: the progress update of one frame.\<close>

definition morph_target :: "TreeState \<Rightarrow> real" where
  "morph_target state = (if state = ASSEMBLED then 1 else 0)"

definition smoothTime :: "TreeState \<Rightarrow> real" where
  "smoothTime state = (if state = ASSEMBLED then 2.0 else 0.8)"

definition morph_step :: "TreeState \<Rightarrow> real \<Rightarrow> real \<Rightarrow> real" where
  "morph_step state morphProgress delta =
     damp morphProgress (morph_target state) (smoothTime state) delta"

text \<open>
  Repeated calls of \<^verbatim>\<open>damp\<close> towards a fixed target with a fixed \<^verbatim>\<open>lambda\<close>: the values
  after each of the steps \<open>dts\<close>. The progress values of successive frames of the tree,
  while the tree state stays the same, are such a run.
\<close>

fun damp_run :: "real \<Rightarrow> real \<Rightarrow> real \<Rightarrow> real list \<Rightarrow> real list" where
  "damp_run p target lambda [] = []"
| "damp_run p target lambda (dt # dts) =
     damp p target lambda dt # damp_run (damp p target lambda dt) target lambda dts"

fun morph_run :: "TreeState \<Rightarrow> real \<Rightarrow> real list \<Rightarrow> real list" where
  "morph_run state p [] = []"
| "morph_run state p (delta # deltas) =
     morph_step state p delta # morph_run state (morph_step state p delta) deltas"

text \<open>
  The per-entity updates. Each writes into the shared object \<^verbatim>\<open>dummy\<close>, which all
  groups of a frame share, and stores its matrix; the result is the shared object after
  the update, whose position, orientation and scale are the transform stored. \<open>t\<close> is the
  morph progress, \<open>time\<close> the elapsed clock time, \<open>i\<close> the entity's index in its group.
\<close>

definition lerp_position :: "vec3 \<Rightarrow> vec3 \<Rightarrow> real \<Rightarrow> vec3" where
  "lerp_position a b t = (lerp (vx a) (vx b) t, lerp (vy a) (vy b) t, lerp (vz a) (vz b) t)"

definition update_needle :: "real \<Rightarrow> real \<Rightarrow> 'a needle_scheme \<Rightarrow> object3d \<Rightarrow> object3d" where
  "update_needle t time data dummy =
     (let d1 = dummy\<lparr>obj_position := lerp_position (scatterPosition data) (treePosition data) t\<rparr>;
          d2 = (if t > 0.8
                then d1\<lparr>obj_rotation :=
                        Euler (vx (rotation data) + sin (time + vy (treePosition data)) * 0.05)
                              (vy (rotation data))
                              (vz (rotation data) + cos (time + vy (treePosition data)) * 0.05)\<rparr>
                else d1\<lparr>obj_rotation := Euler time time time\<rparr>)
      in d2\<lparr>obj_scale := scale data\<rparr>)"

definition flowOffset :: "real \<Rightarrow> nat \<Rightarrow> real" where
  "flowOffset time i = sin (time * 2 + (real i * 0.1)) * 0.05"

definition update_ribbon :: "real \<Rightarrow> real \<Rightarrow> nat \<Rightarrow> 'a entity_scheme \<Rightarrow> object3d \<Rightarrow> object3d" where
  "update_ribbon t time i data dummy =
     (let d1 = dummy\<lparr>obj_position :=
                 (lerp (vx (scatterPosition data)) (vx (treePosition data)) t,
                  lerp (vy (scatterPosition data)) (vy (treePosition data) + flowOffset time i) t,
                  lerp (vz (scatterPosition data)) (vz (treePosition data)) t)\<rparr>;
          s = (if t > 0.1 then sin (time * 5 + real i) * 0.2 + 0.8 else 0.5);
          d2 = d1\<lparr>obj_scale := s * 0.8\<rparr>
      in lookAt d2 (0, 0, 0))"

definition update_ornament :: "real \<Rightarrow> real \<Rightarrow> 'a ornament_scheme \<Rightarrow> object3d \<Rightarrow> object3d" where
  "update_ornament t time data dummy =
     dummy\<lparr>obj_position := lerp_position (scatterPosition data) (treePosition data) t,
            obj_rotation := Euler (time * 0.5) (phase data) 0,
            obj_scale := scale data\<rparr>"

definition blink :: "real \<Rightarrow> real \<Rightarrow> real" where
  "blink time ph = sin (time * 4 + ph) * 0.5 + 0.5"

text \<open>A light sets the position and the scale of the shared object, not its rotation.\<close>

definition update_light :: "real \<Rightarrow> real \<Rightarrow> 'a ornament_scheme \<Rightarrow> object3d \<Rightarrow> object3d" where
  "update_light t time data dummy =
     dummy\<lparr>obj_position := lerp_position (scatterPosition data) (treePosition data) t,
            obj_scale := 0.4 + blink time (phase data) * 0.4\<rparr>"

text \<open>The colour \<^verbatim>\<open>setHSL(0.12, 1.0, 0.5 + blink * 0.5)\<close> stored for a light.\<close>

definition light_color :: "real \<Rightarrow> 'a ornament_scheme \<Rightarrow> real \<times> real \<times> real" where
  "light_color time data = (0.12, 1.0, 0.5 + blink time (phase data) * 0.5)"


section \<open>Snow particles and photos (src/components/Scene.tsx)\<close>

text \<open>Line 84 and 85: the scene's own progress, 0 when assembled and 1 otherwise.\<close>

definition scene_target :: "TreeState \<Rightarrow> real" where
  "scene_target ts = (if ts = ASSEMBLED then 0 else 1)"

definition scene_step :: "TreeState \<Rightarrow> real \<Rightarrow> real \<Rightarrow> real" where
  "scene_step ts progress delta = damp progress (scene_target ts) 2 delta"

record particle =
  initialPos :: vec3
  velocity :: real
  p_scale :: real
  p_color :: string
  offset :: real

text \<open>
  The remainder operator \<^verbatim>\<open>%\<close> of JavaScript on numbers: the quotient is truncated
  towards zero, so the result has the sign of the dividend.
\<close>

definition js_rem :: "real \<Rightarrow> real \<Rightarrow> real" where
  "js_rem a b = a - b * of_int (if 0 \<le> a / b then \<lfloor>a / b\<rfloor> else \<lceil>a / b\<rceil>)"

text \<open>
  Lines 114 to 149, the update of one particle. \<open>rnd\<close> is the number that \<^verbatim>\<open>Math.random()\<close>
  returns when the explosion branch calls it; the falling branch does not call it.
\<close>

definition particle_position :: "real \<Rightarrow> real \<Rightarrow> real \<Rightarrow> 'a particle_scheme \<Rightarrow> vec3" where
  "particle_position t time rnd p =
     (if t < 0.5 then
        (let y = vy (initialPos p) - js_rem (time * velocity p * 20 + offset p) 30;
             y' = (if y < -15 then y + 30 else y)
         in (vx (initialPos p) + sin (time + offset p) * 0.5,
             y',
             vz (initialPos p) + cos (time + offset p) * 0.5))
      else
        (let explosionFactor = t * 15
         in (vx (initialPos p) + (vx (initialPos p) / 10) * explosionFactor,
             vy (initialPos p) + (rnd - 0.5) * explosionFactor,
             vz (initialPos p) + (vz (initialPos p) / 10) * explosionFactor)))"

definition update_particle ::
  "real \<Rightarrow> real \<Rightarrow> real \<Rightarrow> 'a particle_scheme \<Rightarrow> object3d \<Rightarrow> object3d" where
  "update_particle t time rnd p dummy =
     dummy\<lparr>obj_position := particle_position t time rnd p,
            obj_rotation := Euler time time time,
            obj_scale := p_scale p * (1 + t)\<rparr>"



record layout =
  scatterPos :: vec3
  treePos :: vec3
  layout_id :: string




text \<open>
  Lines 159 and 161, the position of one photo mesh that has a layout entry: the blend
  target \<^verbatim>\<open>currentPos\<close>, and the mesh's position \<open>child_position\<close> eased towards it.
\<close>

definition photo_currentPos :: "'a layout_scheme \<Rightarrow> real \<Rightarrow> vec3" where
  "photo_currentPos l t = lerpVectors (treePos l) (scatterPos l) t"

definition photo_position :: "real \<Rightarrow> 'a layout_scheme \<Rightarrow> vec3 \<Rightarrow> vec3" where
  "photo_position t l child_position = vec_lerp child_position (photo_currentPos l t) 0.1"

section \<open>The classifier's conditions in the specification's words\<close>

text \<open>
  The fingers as pairs of a fingertip index and its base joint index, and the two
  conditions on one finger: folded (the tip's squared distance to the wrist, landmark 0,
  is below 1.2 times the base's) and extended (it exceeds 1.5 times the base's). These
  follow the specification; the counting loops of the source are compared with them below.
\<close>

definition fingers :: "(nat \<times> nat) list" where
  "fingers = [(8, 5), (12, 9), (16, 13), (20, 17)]"

definition spec_folded :: "landmark list \<Rightarrow> nat \<times> nat \<Rightarrow> bool" where
  "spec_folded landmarks f \<longleftrightarrow>
     dSq (landmarks ! fst f) (landmarks ! 0) < 1.2 * dSq (landmarks ! snd f) (landmarks ! 0)"

definition spec_extended :: "landmark list \<Rightarrow> nat \<times> nat \<Rightarrow> bool" where
  "spec_extended landmarks f \<longleftrightarrow>
     dSq (landmarks ! fst f) (landmarks ! 0) > 1.5 * dSq (landmarks ! snd f) (landmarks ! 0)"

definition spec_folded_fingers :: "landmark list \<Rightarrow> nat" where
  "spec_folded_fingers landmarks = card {f. f \<in> set fingers \<and> spec_folded landmarks f}"

definition spec_extended_fingers :: "landmark list \<Rightarrow> nat" where
  "spec_extended_fingers landmarks = card {f. f \<in> set fingers \<and> spec_extended landmarks f}"

section \<open>Concrete hands\<close>

definition lm :: "real \<Rightarrow> real \<Rightarrow> landmark" where
  "lm a b = \<lparr>pt_x = a, pt_y = b\<rparr>"

text \<open>
  Wrist at (0.5, 0.8). Index finger stretched out, middle, ring and little finger curled
  towards the palm: three of four fingers folded.
\<close>

definition fist_hand :: "landmark list" where
  "fist_hand =
     [lm 0.50 0.80, lm 0.46 0.78, lm 0.44 0.76, lm 0.45 0.74, lm 0.47 0.73,
      lm 0.44 0.72, lm 0.42 0.68, lm 0.41 0.65, lm 0.40 0.62,
      lm 0.48 0.70, lm 0.48 0.68, lm 0.48 0.72, lm 0.48 0.76,
      lm 0.52 0.70, lm 0.52 0.68, lm 0.52 0.72, lm 0.52 0.76,
      lm 0.56 0.72, lm 0.56 0.70, lm 0.56 0.73, lm 0.55 0.77]"

text \<open>All four fingers stretched away from the wrist.\<close>

definition open_hand :: "landmark list" where
  "open_hand =
     [lm 0.50 0.80, lm 0.44 0.78, lm 0.40 0.74, lm 0.37 0.70, lm 0.34 0.66,
      lm 0.44 0.72, lm 0.42 0.68, lm 0.41 0.65, lm 0.40 0.62,
      lm 0.48 0.70, lm 0.48 0.66, lm 0.48 0.62, lm 0.48 0.58,
      lm 0.52 0.70, lm 0.52 0.66, lm 0.53 0.63, lm 0.53 0.60,
      lm 0.56 0.72, lm 0.57 0.69, lm 0.58 0.67, lm 0.59 0.65]"

text \<open>
  Fingers half bent (neither folded nor extended); the thumb tip (landmark 4) lies at
  squared distance \<open>0.03\<^sup>2 + 0.01\<^sup>2 = 0.001\<close> from the index tip (landmark 8).
\<close>

definition pinch_hand :: "landmark list" where
  "pinch_hand =
     [lm 0.50 0.80, lm 0.46 0.78, lm 0.44 0.76, lm 0.45 0.74, lm 0.46 0.72,
      lm 0.44 0.72, lm 0.43 0.70, lm 0.42 0.70, lm 0.43 0.71,
      lm 0.48 0.70, lm 0.48 0.69, lm 0.48 0.68, lm 0.48 0.685,
      lm 0.52 0.70, lm 0.52 0.69, lm 0.52 0.68, lm 0.52 0.685,
      lm 0.56 0.72, lm 0.57 0.71, lm 0.57 0.70, lm 0.57 0.71]"

text \<open>
  The fist and the open hand with the thumb tip moved onto the index tip (squared
  distance \<open>0.01\<^sup>2 + 0.01\<^sup>2 = 0.0002\<close>): the pinch test would match, were it reached.
\<close>

definition fist_pinch_hand :: "landmark list" where
  "fist_pinch_hand = fist_hand[4 := lm 0.41 0.63]"

definition open_pinch_hand :: "landmark list" where
  "open_pinch_hand = open_hand[4 := lm 0.41 0.63]"

text \<open>The same half-bent fingers with the thumb held away from the index tip.\<close>

definition relaxed_hand :: "landmark list" where
  "relaxed_hand = pinch_hand[4 := lm 0.36 0.74]"

section \<open>The damping of the specification\<close>

text \<open>
  The specification's reading of the damping step, with a time constant:
  \<open>target + (progress - target) * exp (- dt / timeConstant)\<close>.
\<close>

definition spec_damp :: "real \<Rightarrow> real \<Rightarrow> real \<Rightarrow> real \<Rightarrow> real" where
  "spec_damp progress target timeConstant dt =
     target + (progress - target) * exp (- dt / timeConstant)"

section \<open>Concrete entities\<close>

text \<open>The first ribbon segment: index 0, on the cone at height 4.5.\<close>

definition sample_ribbon :: entity where
  "sample_ribbon = \<lparr>scatterPosition = (10, 0, 0), treePosition = (0.975, 4.5, 0), scale = 1\<rparr>"

text \<open>The first needle, at the top of the tree, and an ornament.\<close>

definition sample_needle :: needle where
  "sample_needle =
     \<lparr>scatterPosition = (0, 20, 0), treePosition = (0, 5, 0), scale = 0.75,
      rotation = (0, pi / 2, 0.5)\<rparr>"

definition sample_ornament :: ornament where
  "sample_ornament =
     \<lparr>scatterPosition = (0, 0, 15), treePosition = (3.2, 0, 0), scale = 0.75, phase = 5\<rparr>"

text \<open>The layout entry of a first photo, for the random draws 0 and 0.5.\<close>

definition sample_layout :: layout where
  "sample_layout = \<lparr>scatterPos = (12, 0, 0), treePos = (4.4, -3, 0), layout_id = ''a''\<rparr>"

definition sample_particle :: particle where
  "sample_particle =
     \<lparr>initialPos = (10, 0, 0), velocity = 0.05, p_scale = 0.1, p_color = ''#FFFFFF'',
      offset = 0\<rparr>"




section \<open>Properties of the landmark classifier\<close>

lemma foldedCount_spec: "foldedCount landmarks = spec_folded_fingers landmarks"
proof -
  have d: "distinct fingers" by (simp add: fingers_def)
  have "spec_folded_fingers landmarks = length (filter (spec_folded landmarks) fingers)"
    unfolding spec_folded_fingers_def
    using distinct_length_filter[OF d, of "spec_folded landmarks"]
    by (simp add: Int_def conj_commute)
  also have "\<dots> = foldedCount landmarks"
    by (simp add: foldedCount_def fingers_def spec_folded_def tips_def bases_def mult.commute)
  finally show ?thesis by simp
qed

lemma extendedCount_spec: "extendedCount landmarks = spec_extended_fingers landmarks"
proof -
  have d: "distinct fingers" by (simp add: fingers_def)
  have "spec_extended_fingers landmarks = length (filter (spec_extended landmarks) fingers)"
    unfolding spec_extended_fingers_def
    using distinct_length_filter[OF d, of "spec_extended landmarks"]
    by (simp add: Int_def conj_commute)
  also have "\<dots> = extendedCount landmarks"
    by (simp add: extendedCount_def fingers_def spec_extended_def tips_def bases_def mult.commute)
  finally show ?thesis by simp
qed

lemmas hand_eval = foldedCount_def extendedCount_def lm_def dSq_def tips_def bases_def
  power2_eq_square

lemma fist_hand_counts: "length fist_hand = 21 \<and> foldedCount fist_hand = 3"
  by (simp add: fist_hand_def hand_eval)

lemma open_hand_counts:
  "length open_hand = 21 \<and> foldedCount open_hand = 0 \<and> extendedCount open_hand = 4"
  by (simp add: open_hand_def hand_eval)

lemma pinch_hand_counts:
  "length pinch_hand = 21 \<and> foldedCount pinch_hand = 0 \<and> extendedCount pinch_hand = 0
   \<and> dSq (pinch_hand ! 4) (pinch_hand ! 8) = 0.001"
  by (simp add: pinch_hand_def hand_eval)

lemma relaxed_hand_counts:
  "length relaxed_hand = 21 \<and> foldedCount relaxed_hand = 0 \<and> extendedCount relaxed_hand = 0
   \<and> dSq (relaxed_hand ! 4) (relaxed_hand ! 8) = 0.0058"
  by (simp add: relaxed_hand_def pinch_hand_def hand_eval)

lemma fist_pinch_hand_counts:
  "length fist_pinch_hand = 21 \<and> foldedCount fist_pinch_hand = 3
   \<and> dSq (fist_pinch_hand ! 4) (fist_pinch_hand ! 8) = 0.0002"
  by (simp add: fist_pinch_hand_def fist_hand_def hand_eval)

lemma open_pinch_hand_counts:
  "length open_pinch_hand = 21 \<and> foldedCount open_pinch_hand = 0
   \<and> extendedCount open_pinch_hand = 4
   \<and> dSq (open_pinch_hand ! 4) (open_pinch_hand ! 8) = 0.0002"
  by (simp add: open_pinch_hand_def open_hand_def hand_eval)

text \<open>
  C4. For every landmark set of (at least) 21 points the classifier returns exactly one
  symbol, chosen by the cascade FIST, OPEN, PINCH, NONE: FIST whenever at least 3 of the
  four fingers are folded (tip closer to the wrist, in squared distance, than 1.2 times
  the base joint); otherwise OPEN whenever at least 3 are extended (beyond 1.5 times);
  otherwise PINCH when the squared distance of thumb tip and index tip is below 0.002;
  otherwise NONE. In particular OPEN is returned only when fewer than 3 fingers are
  folded, so the OPEN check never overrides a matched FIST.
\<close>

theorem analyzeGesture_fist_priority:
  assumes "21 \<le> length landmarks"
  shows "analyzeGesture landmarks =
           Inr (if 3 \<le> spec_folded_fingers landmarks then FIST
                else if 3 \<le> spec_extended_fingers landmarks then OPEN
                else if dSq (landmarks ! 4) (landmarks ! 8) < 0.002 then PINCH
                else NONE)
       \<and> (3 \<le> spec_folded_fingers landmarks \<longrightarrow> analyzeGesture landmarks = Inr FIST)
       \<and> (spec_folded_fingers landmarks < 3 \<and> 3 \<le> spec_extended_fingers landmarks \<longrightarrow>
            analyzeGesture landmarks = Inr OPEN)
       \<and> (spec_folded_fingers landmarks < 3 \<and> spec_extended_fingers landmarks < 3
            \<and> dSq (landmarks ! 4) (landmarks ! 8) < 0.002 \<longrightarrow>
            analyzeGesture landmarks = Inr PINCH)
       \<and> (spec_folded_fingers landmarks < 3 \<and> spec_extended_fingers landmarks < 3
            \<and> \<not> dSq (landmarks ! 4) (landmarks ! 8) < 0.002 \<longrightarrow>
            analyzeGesture landmarks = Inr NONE)
       \<and> (analyzeGesture landmarks = Inr OPEN \<longrightarrow>
            spec_folded_fingers landmarks < 3 \<and> 3 \<le> spec_extended_fingers landmarks)
       \<and> (\<exists>!g. analyzeGesture landmarks = Inr g)"
  using assms
  by (auto simp: analyzeGesture_def foldedCount_spec extendedCount_spec split: if_splits)

theorem analyzeGesture_fist_priority_witness:
  "21 \<le> length fist_pinch_hand \<and> 3 \<le> spec_folded_fingers fist_pinch_hand
   \<and> dSq (fist_pinch_hand ! 4) (fist_pinch_hand ! 8) < 0.002
   \<and> analyzeGesture fist_pinch_hand = Inr FIST
   \<and> 21 \<le> length open_pinch_hand \<and> spec_folded_fingers open_pinch_hand < 3
   \<and> 3 \<le> spec_extended_fingers open_pinch_hand
   \<and> dSq (open_pinch_hand ! 4) (open_pinch_hand ! 8) < 0.002
   \<and> analyzeGesture open_pinch_hand = Inr OPEN
   \<and> 21 \<le> length pinch_hand \<and> spec_folded_fingers pinch_hand < 3
   \<and> spec_extended_fingers pinch_hand < 3
   \<and> dSq (pinch_hand ! 4) (pinch_hand ! 8) < 0.002
   \<and> analyzeGesture pinch_hand = Inr PINCH
   \<and> 21 \<le> length relaxed_hand \<and> spec_folded_fingers relaxed_hand < 3
   \<and> spec_extended_fingers relaxed_hand < 3
   \<and> \<not> dSq (relaxed_hand ! 4) (relaxed_hand ! 8) < 0.002
   \<and> analyzeGesture relaxed_hand = Inr NONE"
proof -
  have f: "21 \<le> length fist_pinch_hand" "3 \<le> spec_folded_fingers fist_pinch_hand"
    "dSq (fist_pinch_hand ! 4) (fist_pinch_hand ! 8) < 0.002"
    using fist_pinch_hand_counts by (simp_all add: foldedCount_spec [symmetric])
  have p: "21 \<le> length open_pinch_hand" "spec_folded_fingers open_pinch_hand < 3"
    "3 \<le> spec_extended_fingers open_pinch_hand"
    "dSq (open_pinch_hand ! 4) (open_pinch_hand ! 8) < 0.002"
    using open_pinch_hand_counts
    by (simp_all add: foldedCount_spec [symmetric] extendedCount_spec [symmetric])
  have a: "21 \<le> length pinch_hand" "spec_folded_fingers pinch_hand < 3"
    "spec_extended_fingers pinch_hand < 3" "dSq (pinch_hand ! 4) (pinch_hand ! 8) < 0.002"
    using pinch_hand_counts
    by (simp_all add: foldedCount_spec [symmetric] extendedCount_spec [symmetric])
  have b: "21 \<le> length relaxed_hand" "spec_folded_fingers relaxed_hand < 3"
    "spec_extended_fingers relaxed_hand < 3"
    "\<not> dSq (relaxed_hand ! 4) (relaxed_hand ! 8) < 0.002"
    using relaxed_hand_counts
    by (simp_all add: foldedCount_spec [symmetric] extendedCount_spec [symmetric])
  have 1: "analyzeGesture fist_pinch_hand = Inr FIST"
    using f analyzeGesture_fist_priority [OF f(1)] by blast
  have 2: "analyzeGesture open_pinch_hand = Inr OPEN"
    using p analyzeGesture_fist_priority [OF p(1)] by blast
  have 3: "analyzeGesture pinch_hand = Inr PINCH"
    using a analyzeGesture_fist_priority [OF a(1)] by blast
  have 4: "analyzeGesture relaxed_hand = Inr NONE"
    using b analyzeGesture_fist_priority [OF b(1)] by blast
  show ?thesis
    using f p a b 1 2 3 4 by blast
qed

text \<open>
  C5. For every landmark set of (at least) 21 points with fewer than 3 fingers folded and
  fewer than 3 extended, the classifier returns PINCH if and only if the squared distance
  between thumb tip (4) and index tip (8) is below 0.002, and NONE otherwise; a squared
  distance of exactly 0.001 yields PINCH.
\<close>

theorem analyzeGesture_pinch:
  assumes "21 \<le> length landmarks"
      and "spec_folded_fingers landmarks < 3"
      and "spec_extended_fingers landmarks < 3"
  shows "(analyzeGesture landmarks = Inr PINCH \<longleftrightarrow>
            dSq (landmarks ! 4) (landmarks ! 8) < 0.002)
       \<and> (analyzeGesture landmarks = Inr NONE \<longleftrightarrow>
            \<not> dSq (landmarks ! 4) (landmarks ! 8) < 0.002)
       \<and> (dSq (landmarks ! 4) (landmarks ! 8) = 0.001 \<longrightarrow> analyzeGesture landmarks = Inr PINCH)"
  using assms
  by (auto simp: analyzeGesture_def foldedCount_spec extendedCount_spec)

theorem analyzeGesture_pinch_witness:
  "21 \<le> length pinch_hand \<and> spec_folded_fingers pinch_hand < 3
   \<and> spec_extended_fingers pinch_hand < 3
   \<and> dSq (pinch_hand ! 4) (pinch_hand ! 8) = 0.001
   \<and> analyzeGesture pinch_hand = Inr PINCH
   \<and> 21 \<le> length relaxed_hand \<and> spec_folded_fingers relaxed_hand < 3
   \<and> spec_extended_fingers relaxed_hand < 3
   \<and> \<not> dSq (relaxed_hand ! 4) (relaxed_hand ! 8) < 0.002
   \<and> analyzeGesture relaxed_hand = Inr NONE"
proof -
  have a: "21 \<le> length pinch_hand" "spec_folded_fingers pinch_hand < 3"
    "spec_extended_fingers pinch_hand < 3" "dSq (pinch_hand ! 4) (pinch_hand ! 8) = 0.001"
    using pinch_hand_counts
    by (simp_all add: foldedCount_spec [symmetric] extendedCount_spec [symmetric])
  have b: "21 \<le> length relaxed_hand" "spec_folded_fingers relaxed_hand < 3"
    "spec_extended_fingers relaxed_hand < 3"
    "\<not> dSq (relaxed_hand ! 4) (relaxed_hand ! 8) < 0.002"
    using relaxed_hand_counts
    by (simp_all add: foldedCount_spec [symmetric] extendedCount_spec [symmetric])
  show ?thesis
    using a b analyzeGesture_pinch [OF a(1,2,3)] analyzeGesture_pinch [OF b(1,2,3)]
    by simp
qed

section \<open>Properties of the gesture debouncer\<close>

lemma debounce_out: "debounce st raw = (st', out) \<Longrightarrow> out = raw \<and> lastGesture st' = raw"
  by (auto simp: debounce_def Let_def split: if_splits)

lemma debounce_run_outputs: "fst (debounce_run st raws) = raws"
proof (induction raws arbitrary: st)
  case Nil
  show ?case by simp
next
  case (Cons g gs)
  obtain st' out where d: "debounce st g = (st', out)" by (cases "debounce st g")
  obtain outs st'' where r: "debounce_run st' gs = (outs, st'')" by (cases "debounce_run st' gs")
  from Cons.IH [of st'] r have "outs = gs" by simp
  with d r debounce_out [OF d] show ?case by simp
qed

text \<open>
  C2. Fed any sequence of raw symbols from any state, the debouncer's outputs are the raw
  symbols themselves, in order: each update returns the raw symbol just observed. The
  counter is incremented when the raw symbol repeats the last one and reset to 0 when it
  differs; it has no influence on the output.
\<close>

theorem debounce_passthrough:
  "fst (debounce_run st raws) = raws
   \<and> snd (debounce st raw) = raw
   \<and> lastGesture (fst (debounce st raw)) = raw
   \<and> gestureFrames (fst (debounce st raw))
       = (if raw = lastGesture st then gestureFrames st + 1 else 0)"
  by (simp add: debounce_run_outputs) (simp add: debounce_def Let_def)

section \<open>Frames without a hand\<close>

text \<open>
  C6. On a new video frame for which the landmarker reports no hand (its landmark list is
  absent or empty), \<open>detect\<close> returns normally and calls \<open>onGesture\<close> with NONE and
  no hand data; delivered to the application, the gesture becomes NONE and the hand
  position null. The debounce counters are left as they were.
\<close>

theorem detect_no_hand:
  assumes "currentTime \<noteq> lastVideoTime st"
      and "res = None \<or> res = Some []"
  shows "detect st currentTime res = Inr (st\<lparr>lastVideoTime := currentTime\<rparr>, Some (NONE, None))
       \<and> pipeline_tick (st, app) currentTime res
           = Inr (st\<lparr>lastVideoTime := currentTime\<rparr>, app\<lparr>gesture := NONE, handData := None\<rparr>)"
  using assms by (auto simp: detect_def pipeline_tick_def handleGesture_def Let_def)

theorem detect_no_hand_witness:
  "(0::real) \<noteq> lastVideoTime detect_init
   \<and> detect detect_init 0 None = Inr (detect_init\<lparr>lastVideoTime := 0\<rparr>, Some (NONE, None))
   \<and> pipeline_tick (detect_init, app_init\<lparr>gesture := OPEN, treeState := SCATTERED\<rparr>) 0 (Some [])
       = Inr (detect_init\<lparr>lastVideoTime := 0\<rparr>,
              \<lparr>treeState = SCATTERED, gesture = NONE, handData = None\<rparr>)"
proof -
  have t: "(0::real) \<noteq> lastVideoTime detect_init" by (simp add: detect_init_def)
  show ?thesis
    using t detect_no_hand [OF t, of None] detect_no_hand [OF t, of "Some []"]
    by (simp add: app_init_def)
qed

section \<open>Scene state machine: gestures to target state\<close>

text \<open>
  C3. Whatever the current state and the hand data delivered with the gesture, FIST sets
  the tree state to ASSEMBLED, OPEN sets it to SCATTERED, and NONE and PINCH leave the
  tree state as it was; the gesture itself is recorded in every case.
\<close>

theorem handleGesture_transitions:
  "treeState (handleGesture s FIST d) = ASSEMBLED
   \<and> treeState (handleGesture s OPEN d) = SCATTERED
   \<and> treeState (handleGesture s NONE d) = treeState s
   \<and> treeState (handleGesture s PINCH d) = treeState s
   \<and> gesture (handleGesture s g d) = g"
  by (simp add: handleGesture_def Let_def split: option.split)

section \<open>The damping function\<close>

lemma damp_closed_form: "damp x y lambda dt = y + (x - y) * exp (- lambda * dt)"
  by (simp add: damp_def lerp_def algebra_simps)

lemma damp_zero_dt: "damp x y lambda 0 = x"
  by (simp add: damp_def lerp_def)

section \<open>Morph progress: the damping step of the tree\<close>

lemma morph_step_closed_form:
  "morph_step state p dt
     = morph_target state + (p - morph_target state) * exp (- smoothTime state * dt)"
  by (simp add: morph_step_def damp_closed_form)

text \<open>
  C1. The progress update of the tree evaluated for the state ASSEMBLED, progress 0 and a
  frame time of one second: the code yields \<open>1 - exp (- 2)\<close>, the smoothing with a time
  constant of 2.0 yields \<open>1 - exp (- 1 / 2)\<close>, and the two differ. In the code the value
  2.0 multiplies the frame time, so that after one second the assembling tree has less
  distance left to its target than the scattering tree (started at 1 with 0.8).
\<close>

theorem morph_step_assembled_diverges:
  "morph_step ASSEMBLED 0 1 = 1 - exp (- 2)
   \<and> spec_damp 0 (morph_target ASSEMBLED) 2.0 1 = 1 - exp (- 1 / 2)
   \<and> morph_step ASSEMBLED 0 1 \<noteq> spec_damp 0 (morph_target ASSEMBLED) 2.0 1
   \<and> morph_step SCATTERED 1 1 = exp (- 0.8)
   \<and> 1 - morph_step ASSEMBLED 0 1 < morph_step SCATTERED 1 1"
  by (simp add: morph_step_closed_form morph_target_def smoothTime_def spec_damp_def)

section \<open>Repeated damping towards the target\<close>

lemma morph_run_damp_run:
  "morph_run state p dts = damp_run p (morph_target state) (smoothTime state) dts"
  by (induction dts arbitrary: p) (simp_all add: morph_step_def)

lemma damp_towards_one:
  assumes "0 \<le> lambda" "0 \<le> dt" "p \<le> 1"
  shows "p \<le> damp p 1 lambda dt \<and> damp p 1 lambda dt \<le> 1"
proof -
  have e: "0 < exp (- lambda * dt)" "exp (- lambda * dt) \<le> 1"
    using assms by simp_all
  have "damp p 1 lambda dt = 1 - (1 - p) * exp (- lambda * dt)"
    by (simp add: damp_closed_form algebra_simps)
  moreover have "0 \<le> (1 - p) * exp (- lambda * dt)"
    using assms e by simp
  moreover have "(1 - p) * exp (- lambda * dt) \<le> (1 - p) * 1"
    using assms e by (intro mult_left_mono) simp_all
  ultimately show ?thesis by simp
qed

lemma damp_run_bounds:
  assumes "0 \<le> lambda" "\<forall>dt\<in>set dts. 0 \<le> dt" "p \<le> 1"
  shows "\<forall>q\<in>set (damp_run p 1 lambda dts). p \<le> q \<and> q \<le> 1"
  using assms
proof (induction dts arbitrary: p)
  case Nil
  show ?case by simp
next
  case (Cons d ds)
  have s: "p \<le> damp p 1 lambda d \<and> damp p 1 lambda d \<le> 1"
    using Cons.prems by (intro damp_towards_one) simp_all
  have "\<forall>q\<in>set (damp_run (damp p 1 lambda d) 1 lambda ds). damp p 1 lambda d \<le> q \<and> q \<le> 1"
    using Cons.prems s by (intro Cons.IH) simp_all
  with s show ?case by auto
qed

lemma damp_run_sorted:
  assumes "0 \<le> lambda" "\<forall>dt\<in>set dts. 0 \<le> dt" "p \<le> 1"
  shows "sorted (p # damp_run p 1 lambda dts)"
  using assms
proof (induction dts arbitrary: p)
  case Nil
  show ?case by simp
next
  case (Cons d ds)
  have s: "p \<le> damp p 1 lambda d \<and> damp p 1 lambda d \<le> 1"
    using Cons.prems by (intro damp_towards_one) simp_all
  have t: "sorted (damp p 1 lambda d # damp_run (damp p 1 lambda d) 1 lambda ds)"
    using Cons.prems s by (intro Cons.IH) simp_all
  have "\<forall>q\<in>set (damp_run p 1 lambda (d # ds)). p \<le> q"
    using damp_run_bounds [OF Cons.prems] by blast
  with t show ?case by simp
qed

lemma damp_run_last:
  "last (p # damp_run p y lambda dts) = y + (p - y) * exp (- lambda * sum_list dts)"
proof (induction dts arbitrary: p)
  case Nil
  show ?case by simp
next
  case (Cons d ds)
  have "last (p # damp_run p y lambda (d # ds))
          = last (damp p y lambda d # damp_run (damp p y lambda d) y lambda ds)"
    by simp
  also have "\<dots> = y + (damp p y lambda d - y) * exp (- lambda * sum_list ds)"
    by (rule Cons.IH)
  also have "\<dots> = y + (p - y) * exp (- lambda * sum_list (d # ds))"
    by (simp add: damp_closed_form exp_add [symmetric] algebra_simps)
  finally show ?case .
qed

lemma damp_run_converges:
  assumes "0 < lambda" "0 < eps"
  shows "\<exists>T. \<forall>dts. T \<le> sum_list dts \<longrightarrow> \<bar>last (0 # damp_run 0 1 lambda dts) - 1\<bar> < eps"
proof (intro exI allI impI)
  fix dts :: "real list"
  assume T: "- ln eps / lambda + 1 \<le> sum_list dts"
  have "- ln eps / lambda < sum_list dts" using T by simp
  then have "(- ln eps / lambda) * lambda < sum_list dts * lambda"
    using assms(1) by (rule mult_strict_right_mono)
  then have "- ln eps < lambda * sum_list dts"
    using assms(1) by (simp add: mult.commute)
  then have "exp (- lambda * sum_list dts) < exp (ln eps)"
    by simp
  then have "exp (- lambda * sum_list dts) < eps"
    using assms(2) by simp
  then show "\<bar>last (0 # damp_run 0 1 lambda dts) - 1\<bar> < eps"
    using damp_run_last [of 0 1 lambda dts] by simp
qed

text \<open>
  C7. \<open>damp\<close> with \<open>dt = 0\<close> returns the progress unchanged, for every progress, target
  and third argument. For a positive third argument, the run of \<open>damp\<close> towards target 1
  from progress 0 with positive steps is non-decreasing, stays within 0 and 1, ends at
  \<open>1 - exp (- lambda * total time)\<close>, and comes within any \<open>eps > 0\<close> of the target once
  the total elapsed time is large enough.
\<close>

theorem damp_run_properties:
  "damp p target tau 0 = p
   \<and> (0 < lambda \<and> (\<forall>dt\<in>set dts. 0 < dt) \<longrightarrow>
        sorted (0 # damp_run 0 1 lambda dts)
        \<and> (\<forall>q\<in>set (0 # damp_run 0 1 lambda dts). 0 \<le> q \<and> q \<le> 1)
        \<and> last (0 # damp_run 0 1 lambda dts) = 1 - exp (- lambda * sum_list dts))
   \<and> (0 < lambda \<longrightarrow>
        (\<forall>eps>0. \<exists>T. \<forall>dts'. T \<le> sum_list dts' \<longrightarrow>
           \<bar>last (0 # damp_run 0 1 lambda dts') - 1\<bar> < eps))"
proof (intro conjI impI)
  show "damp p target tau 0 = p" by (rule damp_zero_dt)
next
  assume a: "0 < lambda \<and> (\<forall>dt\<in>set dts. 0 < dt)"
  then have b: "0 \<le> lambda" "\<forall>dt\<in>set dts. 0 \<le> dt" "(0::real) \<le> 1"
    by (auto intro: less_imp_le)
  show "sorted (0 # damp_run 0 1 lambda dts)"
    by (rule damp_run_sorted [OF b])
  show "\<forall>q\<in>set (0 # damp_run 0 1 lambda dts). 0 \<le> q \<and> q \<le> 1"
    using damp_run_bounds [OF b] by simp
  show "last (0 # damp_run 0 1 lambda dts) = 1 - exp (- lambda * sum_list dts)"
    using damp_run_last [of 0 1 lambda dts] by simp
next
  assume "0 < lambda"
  then show "\<forall>eps>0. \<exists>T. \<forall>dts'. T \<le> sum_list dts' \<longrightarrow>
           \<bar>last (0 # damp_run 0 1 lambda dts') - 1\<bar> < eps"
    using damp_run_converges by blast
qed

theorem damp_run_properties_witness:
  "(0::real) < smoothTime ASSEMBLED \<and> (0::real) < 1 / 2 \<and> (0::real) < 1 / 4
   \<and> morph_run ASSEMBLED 0 [1 / 2, 1 / 4] = damp_run 0 1 (smoothTime ASSEMBLED) [1 / 2, 1 / 4]
   \<and> sorted (0 # morph_run ASSEMBLED 0 [1 / 2, 1 / 4])
   \<and> last (0 # morph_run ASSEMBLED 0 [1 / 2, 1 / 4]) = 1 - exp (- (3 / 2))
   \<and> last (0 # morph_run ASSEMBLED 0 [1 / 2, 1 / 4]) \<le> 1"
proof -
  let ?dts = "[1 / 2, 1 / 4 :: real]"
  have l: "(0::real) < smoothTime ASSEMBLED" by (simp add: smoothTime_def)
  have d: "\<forall>dt\<in>set ?dts. 0 < dt" by simp
  have m: "damp_run 0 1 (smoothTime ASSEMBLED) ?dts = morph_run ASSEMBLED 0 ?dts"
  proof -
    have "morph_target ASSEMBLED = 1" by (simp add: morph_target_def)
    then show ?thesis by (simp only: morph_run_damp_run)
  qed
  have s: "- smoothTime ASSEMBLED * sum_list ?dts = - (3 / 2)"
    by (simp add: smoothTime_def)
  have P: "sorted (0 # damp_run 0 1 (smoothTime ASSEMBLED) ?dts)
           \<and> (\<forall>q\<in>set (0 # damp_run 0 1 (smoothTime ASSEMBLED) ?dts). 0 \<le> q \<and> q \<le> 1)
           \<and> last (0 # damp_run 0 1 (smoothTime ASSEMBLED) ?dts)
               = 1 - exp (- smoothTime ASSEMBLED * sum_list ?dts)"
    using l d damp_run_properties [of 0 1 2 "smoothTime ASSEMBLED" ?dts] by blast
  have a: "sorted (0 # morph_run ASSEMBLED 0 ?dts)"
    using P by (simp only: m)
  have b: "last (0 # morph_run ASSEMBLED 0 ?dts) = 1 - exp (- (3 / 2))"
    using P by (simp only: m s)
  have c: "last (0 # morph_run ASSEMBLED 0 ?dts) \<le> 1"
    by (simp only: b) simp
  show ?thesis
    using l a b c by (simp only: m [symmetric]) simp
qed

section \<open>Interpolated positions\<close>










section \<open>Photo layout\<close>









section \<open>Determinism of the per-entity updates\<close>

text \<open>
  C10, as stated, fails: in the explosion regime two updates of the same particle with the
  same progress (1), the same time (0) and the same shared object give different
  transforms when \<open>Math.random()\<close> returns 0.25 in one and 0.75 in the other.
\<close>

theorem explosion_random_counterexample:
  "update_particle 1 0 (1 / 4) sample_particle new_Object3D
     \<noteq> update_particle 1 0 (3 / 4) sample_particle new_Object3D"
proof -
  have "vy (obj_position (update_particle 1 0 (1 / 4) sample_particle new_Object3D)) = - 15 / 4"
    by (simp add: update_particle_def particle_position_def sample_particle_def Let_def vy_def)
  moreover
  have "vy (obj_position (update_particle 1 0 (3 / 4) sample_particle new_Object3D)) = 15 / 4"
    by (simp add: update_particle_def particle_position_def sample_particle_def Let_def vy_def)
  ultimately show ?thesis by auto
qed

text \<open>
  C10, amended. The transform written for a needle, a ribbon segment or an ornament is
  determined by the entity's data (and index), the morph progress and the elapsed time: it
  does not depend on what the shared shared object held before. For a light this holds
  of position and scale, while the rotation is the one the shared object held before.
  For a snow particle in the falling regime (progress below 0.5) the transform is
  determined by the particle's data, the progress and the time. In the explosion regime
  the \<open>x\<close> and \<open>z\<close> coordinates, the rotation and the scale are so determined, and the
  height is the initial height plus \<open>(r - 0.5) * 15 * progress\<close> for the number \<open>r\<close>
  that \<open>Math.random()\<close> returns in that update.
\<close>

theorem updates_determined:
  "update_needle t time n d1 = update_needle t time n d2
   \<and> update_ribbon t time i e d1 = update_ribbon t time i e d2
   \<and> update_ornament t time orn d1 = update_ornament t time orn d2
   \<and> obj_position (update_light t time orn d1) = obj_position (update_light t time orn d2)
   \<and> obj_scale (update_light t time orn d1) = obj_scale (update_light t time orn d2)
   \<and> obj_rotation (update_light t time orn d1) = obj_rotation d1
   \<and> (t < 0.5 \<longrightarrow> update_particle t time r1 p d1 = update_particle t time r2 p d2)
   \<and> vx (obj_position (update_particle t time r1 p d1))
       = vx (obj_position (update_particle t time r2 p d2))
   \<and> vz (obj_position (update_particle t time r1 p d1))
       = vz (obj_position (update_particle t time r2 p d2))
   \<and> obj_rotation (update_particle t time r1 p d1) = obj_rotation (update_particle t time r2 p d2)
   \<and> obj_scale (update_particle t time r1 p d1) = obj_scale (update_particle t time r2 p d2)
   \<and> (\<not> t < 0.5 \<longrightarrow>
        vy (obj_position (update_particle t time r1 p d1))
          = vy (initialPos p) + (r1 - 0.5) * (t * 15))"
  by (cases d1, cases d2)
     (simp add: update_needle_def update_ribbon_def update_ornament_def update_light_def
        update_particle_def particle_position_def Let_def lookAt_def vx_def vy_def vz_def)

theorem updates_determined_witness:
  "(1 / 5 :: real) < 0.5
   \<and> update_particle (1 / 5) 0 (1 / 4) sample_particle new_Object3D
       = update_particle (1 / 5) 0 (3 / 4) sample_particle (new_Object3D\<lparr>obj_scale := 5\<rparr>)
   \<and> \<not> (1 :: real) < 0.5
   \<and> vy (obj_position (update_particle 1 0 (1 / 4) sample_particle new_Object3D)) = - 15 / 4"
proof -
  have a: "(1 / 5 :: real) < 0.5" "\<not> (1 :: real) < 0.5" by simp_all
  have v: "vy (initialPos sample_particle) = 0"
    by (simp add: sample_particle_def vy_def)
  have f: "update_particle (1 / 5) 0 (1 / 4) sample_particle new_Object3D
             = update_particle (1 / 5) 0 (3 / 4) sample_particle (new_Object3D\<lparr>obj_scale := 5\<rparr>)"
    using a(1)
      updates_determined [where t = "1 / 5" and time = 0 and ?r1.0 = "1 / 4" and ?r2.0 = "3 / 4"
        and p = sample_particle and ?d1.0 = new_Object3D
        and ?d2.0 = "new_Object3D\<lparr>obj_scale := 5\<rparr>" and n = sample_needle
        and e = sample_ribbon and orn = sample_ornament and i = 0]
    by blast
  have g: "vy (obj_position (update_particle 1 0 (1 / 4) sample_particle new_Object3D))
             = vy (initialPos sample_particle) + (1 / 4 - 0.5) * (1 * 15)"
    using a(2)
      updates_determined [where t = 1 and time = 0 and ?r1.0 = "1 / 4" and ?r2.0 = "3 / 4"
        and p = sample_particle and ?d1.0 = new_Object3D and ?d2.0 = new_Object3D
        and n = sample_needle and e = sample_ribbon and orn = sample_ornament and i = 0]
    by blast
  have h: "vy (obj_position (update_particle 1 0 (1 / 4) sample_particle new_Object3D)) = - 15 / 4"
    by (simp only: g v) simp
  show ?thesis
    using a f h by blast
qed

end
